theory Spec2Isabelle
  imports Main "HOL-Library.Char_ord" "HOL-Library.List_Lexorder"
begin

section \<open>Field tags and the field resolver\<close>

text \<open>The enumeration \<open>MAL::FIELDS\<close>, in the order of the source.\<close>

datatype FIELDS = FIELDNONE | FIELDTEXT
  | ANIMEDBID | SERIESTITLE | SERIESTYPE | SERIESEPISODES | SERIESSTATUS
  | SERIESDATEBEGIN | SERIESDATEEND | SERIESIMAGEURL | SERIESSYNONYMS
  | ANIME | ENTRY | MYID | MYWATCHEDEPISODES | MYSTARTDATE | MYFINISHDATE | MYSCORE
  | MYSTATUS | MYREWATCHING | MYREWATCHINGEP | MYLASTUPDATED | MYTAGS
  | USERID | SYNOPSIS

text \<open>\<open>initialize_field_map\<close>: the table from element names to field tags. A name that
  is not a key has no entry (\<open>field_map.find(name) == field_map.end()\<close>).\<close>

definition initialize_field_map :: "(string \<times> FIELDS) list" where
  "initialize_field_map = [
     (''my_id'',                    MYID),
     (''series_animedb_id'',        ANIMEDBID),
     (''id'',                       ANIMEDBID),
     (''series_title'',             SERIESTITLE),
     (''title'',                    SERIESTITLE),
     (''series_type'',              SERIESTYPE),
     (''type'',                     SERIESTYPE),
     (''series_episodes'',          SERIESEPISODES),
     (''episodes'',                 SERIESEPISODES),
     (''series_status'',            SERIESSTATUS),
     (''status'',                   SERIESSTATUS),
     (''series_start'',             SERIESDATEBEGIN),
     (''start_date'',               SERIESDATEBEGIN),
     (''series_end'',               SERIESDATEEND),
     (''end_date'',                 SERIESDATEEND),
     (''series_image'',             SERIESIMAGEURL),
     (''image'',                    SERIESIMAGEURL),
     (''series_synonyms'',          SERIESSYNONYMS),
     (''synonyms'',                 SERIESSYNONYMS),
     (''my_score'',                 MYSCORE),
     (''score'',                    MYSCORE),
     (''english'',                  SERIESSYNONYMS),
     (''my_watched_episodes'',      MYWATCHEDEPISODES),
     (''my_start_date'',            MYSTARTDATE),
     (''my_finish_date'',           MYFINISHDATE),
     (''my_status'',                MYSTATUS),
     (''my_rewatching'',            MYREWATCHING),
     (''my_rewatching_ep'',         MYREWATCHINGEP),
     (''my_last_updated'',          MYLASTUPDATED),
     (''my_tags'',                  MYTAGS),
     (''user_id'',                  USERID),
     (''synopsis'',                 SYNOPSIS),
     (''entry'',                    ENTRY),
     (''anime'',                    ANIME),
     (''#text'',                    FIELDTEXT),
     (''user_name'',                FIELDNONE),
     (''user_watching'',            FIELDNONE),
     (''user_completed'',           FIELDNONE),
     (''user_onhold'',              FIELDNONE),
     (''user_dropped'',             FIELDNONE),
     (''user_plantowatch'',         FIELDNONE),
     (''user_days_spent_watching'', FIELDNONE),
     (''myinfo'',                   FIELDNONE),
     (''myanimelist'',              FIELDNONE)]"

definition field_map :: "string \<Rightarrow> FIELDS option" where
  "field_map = map_of initialize_field_map"

section \<open>The item record\<close>

text \<open>Modelled from the spec: the class \<open>MAL::Anime\<close> (anime.hpp) is not among the
  sources. The record has the fields the data model of the spec lists, under the names the
  serializer and the comparator of the sources read (\<open>episodes\<close>, \<open>status\<close>, \<open>score\<close>,
  \<open>downloaded_items\<close>, \<open>date_start\<close>, \<open>date_finish\<close>, \<open>enable_reconsuming\<close>, \<open>tags\<close>,
  \<open>rewatch_episode\<close>, \<open>series_date_begin\<close>, \<open>series_title\<close>) or their setters name
  (\<open>id_field\<close> is the field of \<open>set_id\<close>).
  Integers are unbounded; the enumerations whose values \<open>std::to_string\<close> prints are
  integers.\<close>

record Anime =
  series_itemdb_id :: int
  id_field :: int
  series_title :: string
  series_synonyms :: "string list"
  series_type :: string
  series_episodes :: int
  series_status :: string
  series_date_begin :: string
  series_date_end :: string
  image_url :: string
  series_synopsis :: string
  episodes :: int
  status :: int
  score :: int
  date_start :: string
  date_finish :: string
  enable_reconsuming :: bool
  rewatch_episode :: int
  tags :: "string list"
  last_updated :: string
  downloaded_items :: int

text \<open>Modelled from the spec: the default constructor \<open>Anime()\<close>, "a fresh empty record".\<close>

definition Anime_default :: Anime where
  "Anime_default = \<lparr> series_itemdb_id = 0, id_field = 0, series_title = [], series_synonyms = [],
     series_type = [], series_episodes = 0, series_status = [], series_date_begin = [],
     series_date_end = [], image_url = [], series_synopsis = [], episodes = 0, status = 0,
     score = 0, date_start = [], date_finish = [], enable_reconsuming = False,
     rewatch_episode = 0, tags = [], last_updated = [], downloaded_items = 0 \<rparr>"

subsection \<open>Decimal numbers\<close>

text \<open>\<open>std::to_string\<close> on an integer: the decimal digits, with a minus sign for a
  negative number.\<close>

definition digit_char :: "nat \<Rightarrow> char" where
  "digit_char d = char_of (48 + d)"

function dec_digits :: "nat \<Rightarrow> string" where
  "dec_digits n = (if n < 10 then [digit_char n] else dec_digits (n div 10) @ [digit_char (n mod 10)])"
  by pat_completeness auto
termination
  by (relation "measure (\<lambda>n. n)") auto

definition to_string :: "int \<Rightarrow> string" where
  "to_string i = (if i < 0 then CHR ''-'' # dec_digits (nat (- i)) else dec_digits (nat i))"

text \<open>Modelled from the spec: how a setter of an integer field reads its text is in the
  absent anime.hpp. The number is the value of the leading run of decimal digits, after an
  optional minus sign; a text with no digit reads as 0.\<close>

definition is_digit :: "char \<Rightarrow> bool" where
  "is_digit c = (48 \<le> (of_char c :: nat) \<and> (of_char c :: nat) \<le> 57)"

definition digit_val :: "char \<Rightarrow> nat" where
  "digit_val c = of_char c - 48"

definition dec_value :: "string \<Rightarrow> nat" where
  "dec_value s = foldl (\<lambda>acc c. 10 * acc + digit_val c) 0 (takeWhile is_digit s)"

definition to_int :: "string \<Rightarrow> int" where
  "to_int s = (case s of
      [] \<Rightarrow> 0
    | c # cs \<Rightarrow> if c = CHR ''-'' then - int (dec_value cs) else int (dec_value s))"

subsection \<open>Setters\<close>

text \<open>Modelled from the spec: the member functions of \<open>MAL::Anime\<close> that the table of
  setters binds are in the absent anime.hpp. Each is a function from the record and the text
  to the record with one field replaced: a text field keeps the text, an integer field reads
  it as a decimal number, the flag is set by a number other than 0, and a list field splits
  the text at the separator \<open>"; "\<close> with which the serializer joins the tags.\<close>

fun split_list :: "string \<Rightarrow> string \<Rightarrow> string list" where
  "split_list cur [] = [cur]"
| "split_list cur [c] = [cur @ [c]]"
| "split_list cur (c # d # cs) =
     (if c = CHR '';'' \<and> d = CHR '' '' then cur # split_list [] cs
      else split_list (cur @ [c]) (d # cs))"

definition set_series_itemdb_id :: "Anime \<Rightarrow> string \<Rightarrow> Anime" where
  "set_series_itemdb_id a s = a\<lparr>series_itemdb_id := to_int s\<rparr>"

definition set_series_title :: "Anime \<Rightarrow> string \<Rightarrow> Anime" where
  "set_series_title a s = a\<lparr>series_title := s\<rparr>"

definition set_series_date_begin :: "Anime \<Rightarrow> string \<Rightarrow> Anime" where
  "set_series_date_begin a s = a\<lparr>series_date_begin := s\<rparr>"

definition set_series_date_end :: "Anime \<Rightarrow> string \<Rightarrow> Anime" where
  "set_series_date_end a s = a\<lparr>series_date_end := s\<rparr>"

definition set_image_url :: "Anime \<Rightarrow> string \<Rightarrow> Anime" where
  "set_image_url a s = a\<lparr>image_url := s\<rparr>"

definition set_series_synonyms :: "Anime \<Rightarrow> string \<Rightarrow> Anime" where
  "set_series_synonyms a s = a\<lparr>series_synonyms := split_list [] s\<rparr>"

definition set_series_synopsis :: "Anime \<Rightarrow> string \<Rightarrow> Anime" where
  "set_series_synopsis a s = a\<lparr>series_synopsis := s\<rparr>"

definition set_series_type :: "Anime \<Rightarrow> string \<Rightarrow> Anime" where
  "set_series_type a s = a\<lparr>series_type := s\<rparr>"

definition set_series_status :: "Anime \<Rightarrow> string \<Rightarrow> Anime" where
  "set_series_status a s = a\<lparr>series_status := s\<rparr>"

definition set_series_episodes :: "Anime \<Rightarrow> string \<Rightarrow> Anime" where
  "set_series_episodes a s = a\<lparr>series_episodes := to_int s\<rparr>"

definition set_tags :: "Anime \<Rightarrow> string \<Rightarrow> Anime" where
  "set_tags a s = a\<lparr>tags := split_list [] s\<rparr>"

definition set_date_start :: "Anime \<Rightarrow> string \<Rightarrow> Anime" where
  "set_date_start a s = a\<lparr>date_start := s\<rparr>"

definition set_date_finish :: "Anime \<Rightarrow> string \<Rightarrow> Anime" where
  "set_date_finish a s = a\<lparr>date_finish := s\<rparr>"

definition set_id :: "Anime \<Rightarrow> string \<Rightarrow> Anime" where
  "set_id a s = a\<lparr>id_field := to_int s\<rparr>"

definition set_last_updated :: "Anime \<Rightarrow> string \<Rightarrow> Anime" where
  "set_last_updated a s = a\<lparr>last_updated := s\<rparr>"

definition set_score :: "Anime \<Rightarrow> string \<Rightarrow> Anime" where
  "set_score a s = a\<lparr>score := to_int s\<rparr>"

definition set_enable_reconsuming :: "Anime \<Rightarrow> string \<Rightarrow> Anime" where
  "set_enable_reconsuming a s = a\<lparr>enable_reconsuming := (to_int s \<noteq> 0)\<rparr>"

definition set_status :: "Anime \<Rightarrow> string \<Rightarrow> Anime" where
  "set_status a s = a\<lparr>status := to_int s\<rparr>"

definition set_episodes :: "Anime \<Rightarrow> string \<Rightarrow> Anime" where
  "set_episodes a s = a\<lparr>episodes := to_int s\<rparr>"

definition set_rewatch_episode :: "Anime \<Rightarrow> string \<Rightarrow> Anime" where
  "set_rewatch_episode a s = a\<lparr>rewatch_episode := to_int s\<rparr>"

text \<open>\<open>initialize_member_map\<close>: the table from field tags to setters. The tags
  \<open>FIELDNONE\<close>, \<open>FIELDTEXT\<close>, \<open>ANIME\<close>, \<open>ENTRY\<close> and \<open>USERID\<close> have no entry.\<close>

definition initialize_member_map :: "(FIELDS \<times> (Anime \<Rightarrow> string \<Rightarrow> Anime)) list" where
  "initialize_member_map = [
     (ANIMEDBID,         set_series_itemdb_id),
     (SERIESTITLE,       set_series_title),
     (SERIESDATEBEGIN,   set_series_date_begin),
     (SERIESDATEEND,     set_series_date_end),
     (SERIESIMAGEURL,    set_image_url),
     (SERIESSYNONYMS,    set_series_synonyms),
     (SYNOPSIS,          set_series_synopsis),
     (SERIESTYPE,        set_series_type),
     (SERIESSTATUS,      set_series_status),
     (SERIESEPISODES,    set_series_episodes),
     (MYTAGS,            set_tags),
     (MYSTARTDATE,       set_date_start),
     (MYFINISHDATE,      set_date_finish),
     (MYID,              set_id),
     (MYLASTUPDATED,     set_last_updated),
     (MYSCORE,           set_score),
     (MYREWATCHING,      set_enable_reconsuming),
     (MYSTATUS,          set_status),
     (MYWATCHEDEPISODES, set_episodes),
     (MYREWATCHINGEP,    set_rewatch_episode)]"

definition member_map :: "FIELDS \<Rightarrow> (Anime \<Rightarrow> string \<Rightarrow> Anime) option" where
  "member_map = map_of initialize_member_map"

section \<open>The deserializer\<close>

text \<open>What \<open>xmlTextReaderNodeType\<close> reports for a node. The loop distinguishes four kinds;
  every other kind carries its number, which the warning prints.\<close>

datatype node_type = XML_READER_TYPE_ELEMENT | XML_READER_TYPE_END_ELEMENT
  | XML_READER_TYPE_TEXT | XML_READER_TYPE_SIGNIFICANT_WHITESPACE
  | XML_READER_TYPE_OTHER int

text \<open>One node of the reader: its name (\<open>xmlTextReaderConstName\<close>, empty for a null
  pointer), its value (\<open>xmlTextReaderConstValue\<close>) and its kind.\<close>

record xml_node =
  node_name :: string
  node_value :: string
  node_kind :: node_type

text \<open>The lines written to \<open>std::cerr\<close>, as events.\<close>

datatype diagnostic =
    NoReader
  | UnexpectedField string
  | Problem
  | UnexpectedEmpty string string
  | UnexpectedNodeType node_type string string
  | FailedToParse int

text \<open>The local variables of \<open>AnimeSerializer::deserialize\<close>.\<close>

record dstate =
  res :: "Anime list"
  anime :: Anime
  field :: FIELDS
  prev_field :: FIELDS
  entry_after_anime :: bool
  seen_anime :: bool
  seen_entry :: bool
  cerr :: "diagnostic list"

definition dstate_init :: dstate where
  "dstate_init = \<lparr> res = [], anime = Anime_default, field = FIELDNONE, prev_field = FIELDNONE,
     entry_after_anime = False, seen_anime = False, seen_entry = False, cerr = [] \<rparr>"

text \<open>The lookup of the name at the head of the loop body: a known name shifts \<open>field\<close>
  into \<open>prev_field\<close> and becomes \<open>field\<close>; an unknown name is reported and leaves both as
  they are.\<close>

definition resolve_name :: "string \<Rightarrow> dstate \<Rightarrow> dstate" where
  "resolve_name name st =
     (case field_map name of
        Some f \<Rightarrow> st\<lparr>prev_field := field st, field := f\<rparr>
      | None \<Rightarrow> st\<lparr>cerr := cerr st @ [UnexpectedField name]\<rparr>)"

text \<open>The \<open>switch\<close> on the node kind.\<close>

definition on_element :: "dstate \<Rightarrow> dstate" where
  "on_element st =
     st\<lparr>entry_after_anime := entry_after_anime st \<or> (field st = ENTRY \<and> seen_anime st \<and> \<not> seen_entry st),
        seen_entry := seen_entry st \<or> field st = ENTRY,
        seen_anime := seen_anime st \<or> field st = ANIME\<rparr>"

definition on_end_element :: "dstate \<Rightarrow> dstate" where
  "on_end_element st =
     (let st' = (if (entry_after_anime st \<and> field st = ENTRY) \<or> (\<not> entry_after_anime st \<and> field st = ANIME)
                 then st\<lparr>res := res st @ [anime st], anime := Anime_default\<rparr>
                 else st)
      in st'\<lparr>field := FIELDNONE\<rparr>)"

definition on_text :: "string \<Rightarrow> string \<Rightarrow> dstate \<Rightarrow> dstate" where
  "on_text name val st =
     (let st' = (if field st \<noteq> FIELDTEXT then st\<lparr>cerr := cerr st @ [Problem]\<rparr> else st)
      in if length val > 0 then
           (case member_map (prev_field st') of
              Some setter \<Rightarrow> st'\<lparr>anime := setter (anime st') val\<rparr>
            | None \<Rightarrow> st')
         else st'\<lparr>cerr := cerr st' @ [UnexpectedEmpty name val]\<rparr>)"

text \<open>The body of the loop for one node. The text cleaner \<open>parse_html_entities\<close> of the
  injected \<open>TextUtility\<close> is the parameter \<open>clean\<close>.\<close>

definition deserialize_node :: "(string \<Rightarrow> string) \<Rightarrow> dstate \<Rightarrow> xml_node \<Rightarrow> dstate" where
  "deserialize_node clean st n =
     (let name = node_name n; val = clean (node_value n) in
      if length name > 0 then
        (let st1 = resolve_name name st in
         case node_kind n of
           XML_READER_TYPE_ELEMENT \<Rightarrow> on_element st1
         | XML_READER_TYPE_END_ELEMENT \<Rightarrow> on_end_element st1
         | XML_READER_TYPE_TEXT \<Rightarrow> on_text name val st1
         | XML_READER_TYPE_SIGNIFICANT_WHITESPACE \<Rightarrow> st1
         | XML_READER_TYPE_OTHER k \<Rightarrow>
             st1\<lparr>cerr := cerr st1 @ [UnexpectedNodeType (XML_READER_TYPE_OTHER k) name val]\<rparr>)
      else st)"

text \<open>The loop: \<open>xmlTextReaderRead\<close> returns 1 for each node of the list and then \<open>ret\<close>
  (0 at the end of the input, a negative number on a read failure).\<close>

definition deserialize_loop :: "(string \<Rightarrow> string) \<Rightarrow> dstate \<Rightarrow> xml_node list \<Rightarrow> dstate" where
  "deserialize_loop clean st ns = foldl (deserialize_node clean) st ns"

text \<open>The reader handed to the loop: \<open>None\<close> when \<open>xmlReaderForMemory\<close> returns null,
  otherwise the nodes it will deliver and the last return value of \<open>xmlTextReaderRead\<close>.\<close>

type_synonym xml_reader = "(xml_node list \<times> int) option"

definition deserialize_run :: "(string \<Rightarrow> string) \<Rightarrow> xml_reader \<Rightarrow> dstate" where
  "deserialize_run clean reader =
     (case reader of
        None \<Rightarrow> dstate_init\<lparr>cerr := [NoReader]\<rparr>
      | Some (ns, ret) \<Rightarrow>
          (let st = deserialize_loop clean dstate_init ns
           in if ret \<noteq> 0 then st\<lparr>cerr := cerr st @ [FailedToParse ret]\<rparr> else st))"

definition deserialize :: "(string \<Rightarrow> string) \<Rightarrow> xml_reader \<Rightarrow> Anime list" where
  "deserialize clean reader = res (deserialize_run clean reader)"

text \<open>Nodes as the reader delivers them for a start tag, an end tag and character data
  (whose name is \<open>#text\<close>).\<close>

definition Start :: "string \<Rightarrow> xml_node" where
  "Start n = \<lparr> node_name = n, node_value = [], node_kind = XML_READER_TYPE_ELEMENT \<rparr>"

definition End :: "string \<Rightarrow> xml_node" where
  "End n = \<lparr> node_name = n, node_value = [], node_kind = XML_READER_TYPE_END_ELEMENT \<rparr>"

definition Text :: "string \<Rightarrow> xml_node" where
  "Text v = \<lparr> node_name = ''#text'', node_value = v, node_kind = XML_READER_TYPE_TEXT \<rparr>"


text \<open>The tag whose end element appends a record: the test of the \<open>END_ELEMENT\<close> case
  compares \<open>field\<close> with \<open>ENTRY\<close> when \<open>entry_after_anime\<close> holds and with \<open>ANIME\<close>
  otherwise.\<close>

definition record_end_tag :: "dstate \<Rightarrow> FIELDS" where
  "record_end_tag st = (if entry_after_anime st then ENTRY else ANIME)"

subsection \<open>The two shapes of a document\<close>

text \<open>The comment above \<open>deserialize\<close> names two shapes: search results are
  \<open><anime><entry></entry><entry></entry></anime>\<close>, list results are
  \<open><entry><anime></anime><anime></anime></entry>\<close>. An item is the list of its fields, a
  field a name and a text; an element with an empty text has no text node.\<close>

type_synonym item = "(string \<times> string) list"

definition field_nodes :: "string \<times> string \<Rightarrow> xml_node list" where
  "field_nodes f = Start (fst f) # (if snd f = [] then [] else [Text (snd f)]) @ [End (fst f)]"

definition item_nodes :: "string \<Rightarrow> item \<Rightarrow> xml_node list" where
  "item_nodes wrapper it = Start wrapper # concat (map field_nodes it) @ [End wrapper]"

definition shape_A :: "item list \<Rightarrow> xml_node list" where
  "shape_A items = Start ''anime'' # concat (map (item_nodes ''entry'') items) @ [End ''anime'']"

definition shape_B :: "item list \<Rightarrow> xml_node list" where
  "shape_B items = Start ''entry'' # concat (map (item_nodes ''anime'') items) @ [End ''entry'']"

text \<open>Two fields are the same logical field when their texts are equal and their names
  resolve alike: to one tag that is not a wrapper's, or both to none. The two shapes name
  one tag differently (\<open>id\<close> and \<open>series_animedb_id\<close>, \<open>title\<close> and \<open>series_title\<close>). Two
  lists of items encode the same items when they agree item by item and field by field.\<close>

definition same_field :: "string \<times> string \<Rightarrow> string \<times> string \<Rightarrow> bool" where
  "same_field f g =
     (snd f = snd g \<and> (fst f = []) = (fst g = [])
      \<and> field_map (fst f) = field_map (fst g)
      \<and> field_map (fst f) \<noteq> Some ANIME \<and> field_map (fst f) \<noteq> Some ENTRY)"

definition same_items :: "item list \<Rightarrow> item list \<Rightarrow> bool" where
  "same_items xs ys = list_all2 (list_all2 same_field) xs ys"

text \<open>Exchanging the two wrappers, on tags and on nodes: two nodes correspond when they
  differ in the name only, and the names resolve to tags that are each other's exchange.
  Two runs of the loop correspond when one has decided for \<open>entry\<close> as the wrapper of an item
  and the other has not, both have seen the two wrappers, they hold the same records, and
  their tags are each other's exchange.\<close>

definition swap_field :: "FIELDS \<Rightarrow> FIELDS" where
  "swap_field f = (if f = ENTRY then ANIME else if f = ANIME then ENTRY else f)"

definition node_related :: "xml_node \<Rightarrow> xml_node \<Rightarrow> bool" where
  "node_related n m =
     (node_kind n = node_kind m \<and> node_value n = node_value m
      \<and> (node_name n = []) = (node_name m = [])
      \<and> field_map (node_name m) = map_option swap_field (field_map (node_name n)))"

definition shape_related :: "dstate \<Rightarrow> dstate \<Rightarrow> bool" where
  "shape_related a b =
     (res a = res b \<and> anime a = anime b
      \<and> field b = swap_field (field a) \<and> prev_field b = swap_field (prev_field a)
      \<and> entry_after_anime a \<and> \<not> entry_after_anime b
      \<and> seen_anime a \<and> seen_entry a \<and> seen_anime b \<and> seen_entry b)"

text \<open>The scenario of the search result with two entries.\<close>

definition search_stream :: "xml_node list" where
  "search_stream = [Start ''anime'',
     Start ''entry'', Start ''id'', Text ''5'', End ''id'',
       Start ''title'', Text ''Foo'', End ''title'', End ''entry'',
     Start ''entry'', Start ''id'', Text ''7'', End ''id'',
       Start ''title'', Text ''Bar'', End ''title'', End ''entry'',
     End ''anime'']"

section \<open>The ordering of a collection (mal.hpp)\<close>

text \<open>\<open>std::string::compare\<close>: the sign of the lexicographic comparison of the bytes as
  unsigned values, a proper prefix being smaller.\<close>

fun string_compare :: "string \<Rightarrow> string \<Rightarrow> int" where
  "string_compare [] [] = 0"
| "string_compare [] (y # ys) = - 1"
| "string_compare (x # xs) [] = 1"
| "string_compare (x # xs) (y # ys) =
     (if (of_char x :: nat) < of_char y then - 1
      else if (of_char y :: nat) < of_char x then 1
      else string_compare xs ys)"

text \<open>\<open>MALItemComparator::operator()\<close>. \<open>substr(0,7)\<close> is the first seven characters, or
  the whole string when it is shorter; position 0 is never out of range.\<close>

definition MALItemComparator :: "Anime \<Rightarrow> Anime \<Rightarrow> bool" where
  "MALItemComparator l r =
     (let season = string_compare (take 7 (series_date_begin l)) (take 7 (series_date_begin r))
      in if season = 0 then string_compare (series_title l) (series_title r) < 0
         else season > 0)"

text \<open>The collections are \<open>std::set\<close>s ordered by the comparator
  (\<open>m_anime_list\<close>, \<open>m_anime_search_results\<close>). A set is the list of its entries in iteration
  order. \<open>insert\<close> keeps the set as it is when it holds an entry equivalent to the new one
  (neither orders before the other); \<open>erase\<close> removes the equivalent entry; \<open>clear\<close>
  empties the set.\<close>

fun set_insert :: "Anime \<Rightarrow> Anime list \<Rightarrow> Anime list" where
  "set_insert x [] = [x]"
| "set_insert x (y # ys) =
     (if MALItemComparator x y then x # y # ys
      else if MALItemComparator y x then y # set_insert x ys
      else y # ys)"

definition set_erase :: "Anime \<Rightarrow> Anime list \<Rightarrow> Anime list" where
  "set_erase x ys = filter (\<lambda>y. MALItemComparator x y \<or> MALItemComparator y x) ys"

datatype set_op = Insert Anime | Erase Anime | Clear

fun apply_set_op :: "Anime list \<Rightarrow> set_op \<Rightarrow> Anime list" where
  "apply_set_op s (Insert x) = set_insert x s"
| "apply_set_op s (Erase x) = set_erase x s"
| "apply_set_op s Clear = []"

definition collection_after :: "set_op list \<Rightarrow> Anime list" where
  "collection_after ops = foldl apply_set_op [] ops"

text \<open>An entry for examples: a catalog id, a title and a start date.\<close>

definition example_entry :: "int \<Rightarrow> string \<Rightarrow> string \<Rightarrow> Anime" where
  "example_entry i t d = Anime_default\<lparr>series_itemdb_id := i, series_title := t, series_date_begin := d\<rparr>"

section \<open>The serializer\<close>

text \<open>Modelled from the spec: \<open>Glib::Date\<close> belongs to an external library. A date is its
  day, month and year; \<open>valid\<close> is the calendar check of the library; \<open>set_parse\<close>, whose
  result depends on the locale, is a parameter of the serializer; \<open>format_string\<close> is modelled
  for the one format the serializer uses, \<open>%m%d%Y\<close>: month and day with two digits, then the
  year.\<close>

record GDate =
  g_day :: nat
  g_month :: nat
  g_year :: nat

definition is_leap_year :: "nat \<Rightarrow> bool" where
  "is_leap_year y = ((y mod 4 = 0 \<and> y mod 100 \<noteq> 0) \<or> y mod 400 = 0)"

definition days_in_month :: "nat \<Rightarrow> nat \<Rightarrow> nat" where
  "days_in_month m y =
     (if m = 2 then (if is_leap_year y then 29 else 28)
      else if m = 4 \<or> m = 6 \<or> m = 9 \<or> m = 11 then 30 else 31)"

definition valid :: "GDate \<Rightarrow> bool" where
  "valid d = (1 \<le> g_month d \<and> g_month d \<le> 12 \<and> 1 \<le> g_day d \<and> 1 \<le> g_year d
              \<and> g_day d \<le> days_in_month (g_month d) (g_year d))"

definition two_digits :: "nat \<Rightarrow> string" where
  "two_digits n = (if n < 10 then CHR ''0'' # dec_digits n else dec_digits n)"

definition format_string_mdY :: "GDate \<Rightarrow> string" where
  "format_string_mdY d = two_digits (g_month d) @ two_digits (g_day d) @ dec_digits (g_year d)"

text \<open>The body of a date element: \<open>set_parse\<close>, then the formatted date when it is valid.\<close>

definition date_body :: "(string \<Rightarrow> GDate) \<Rightarrow> string \<Rightarrow> string" where
  "date_body set_parse s =
     (let d = set_parse s in if valid d then format_string_mdY d else [])"

text \<open>The loop over the tags: the separator \<open>"; "\<close> before every tag but the first.\<close>

fun tags_loop :: "bool \<Rightarrow> string list \<Rightarrow> string" where
  "tags_loop was_first [] = []"
| "tags_loop was_first (t # ts) = (if \<not> was_first then ''; '' else []) @ t @ tags_loop False ts"

text \<open>\<open>AnimeSerializer::serialize\<close>, in three parts: up to \<open>rewatch_value\<close>, the two dates,
  and from \<open>priority\<close> on.\<close>

definition serialize_head :: "Anime \<Rightarrow> string" where
  "serialize_head a =
     ''<?xml version=\"1.0\" encoding=\"UTF-8\"?><entry>''
     @ ''<episode>'' @ to_string (episodes a) @ ''</episode>''
     @ ''<status>'' @ to_string (status a) @ ''</status>''
     @ ''<score>'' @ to_string (score a) @ ''</score>''
     @ ''<downloaded_episodes>'' @ to_string (downloaded_items a) @ ''</downloaded_episodes>''
     @ ''<storage_type>'' @ ''</storage_type>''
     @ ''<storage_value>'' @ ''</storage_value>''
     @ ''<times_rewatched>'' @ ''</times_rewatched>''
     @ ''<rewatch_value>'' @ ''</rewatch_value>''"

definition serialize_dates :: "(string \<Rightarrow> GDate) \<Rightarrow> Anime \<Rightarrow> string" where
  "serialize_dates set_parse a =
     ''<date_start>'' @ date_body set_parse (date_start a) @ ''</date_start>''
     @ ''<date_finish>'' @ date_body set_parse (date_finish a) @ ''</date_finish>''"

definition serialize_tail :: "Anime \<Rightarrow> string" where
  "serialize_tail a =
     ''<priority>'' @ ''</priority>''
     @ ''<enable_discussion>'' @ ''</enable_discussion>''
     @ ''<enable_rewatching>'' @ (if enable_reconsuming a then ''1'' else ''0'') @ ''</enable_rewatching>''
     @ ''<comments>'' @ ''</comments>''
     @ ''<fansub_group>'' @ ''</fansub_group>''
     @ ''<tags>'' @ tags_loop True (tags a) @ ''</tags>''
     @ ''<rewatch_episode>'' @ to_string (rewatch_episode a) @ ''</rewatch_episode>''
     @ ''</entry>''"

definition serialize :: "(string \<Rightarrow> GDate) \<Rightarrow> Anime \<Rightarrow> string" where
  "serialize set_parse a = serialize_head a @ serialize_dates set_parse a @ serialize_tail a"

text \<open>An instance of \<open>set_parse\<close> for examples: it reads the form \<open>YYYY-MM-DD\<close>.\<close>

definition parse_iso :: "string \<Rightarrow> GDate" where
  "parse_iso s = \<lparr> g_day = dec_value (take 2 (drop 8 s)),
                   g_month = dec_value (take 2 (drop 5 s)),
                   g_year = dec_value (take 4 s) \<rparr>"

section \<open>From the wire text to the nodes of the reader\<close>

text \<open>Modelled from the spec: the reader of libxml2 is external, "any standards-pull-style
  tokenizer". The model covers the well-formed documents of the markup the serializer
  writes: an optional declaration \<open><?xml ...?>\<close> at the start, which the reader does not
  deliver; one root element; start tags and end tags without attributes, each end tag
  closing the element opened last; and character data inside an element, made of the space
  and the visible ASCII characters other than \<open><\<close>, \<open>>\<close> and \<open>&\<close> and not of spaces only,
  delivered as one text node. For every other text (a bare \<open>&\<close>, an entity reference, an
  attribute, a tag left open, text outside the root) the result is \<open>None\<close>: the model does
  not say what the reader does there.\<close>

definition name_start_char :: "char \<Rightarrow> bool" where
  "name_start_char c =
     ((97 \<le> (of_char c :: nat) \<and> (of_char c :: nat) \<le> 122)
      \<or> (65 \<le> (of_char c :: nat) \<and> (of_char c :: nat) \<le> 90)
      \<or> c = CHR ''_'')"

definition name_char :: "char \<Rightarrow> bool" where
  "name_char c = (name_start_char c \<or> is_digit c \<or> c = CHR ''-'' \<or> c = CHR ''.'')"

definition xml_name :: "string \<Rightarrow> bool" where
  "xml_name n = (case n of [] \<Rightarrow> False | c # cs \<Rightarrow> name_start_char c \<and> list_all name_char cs)"

definition text_char :: "char \<Rightarrow> bool" where
  "text_char c =
     (32 \<le> (of_char c :: nat) \<and> (of_char c :: nat) \<le> 126
      \<and> c \<noteq> CHR ''<'' \<and> c \<noteq> CHR ''>'' \<and> c \<noteq> CHR ''&'')"

definition blank :: "string \<Rightarrow> bool" where
  "blank s = list_all (\<lambda>c. c = CHR '' '') s"

definition char_data :: "string \<Rightarrow> bool" where
  "char_data s = (list_all text_char s \<and> \<not> blank s)"

text \<open>The nodes of the elements of a text, with the names of the elements that are open,
  the one opened last first.\<close>

function reader_elements :: "string list \<Rightarrow> string \<Rightarrow> xml_node list option" where
  "reader_elements stack [] = (if stack = [] then Some [] else None)"
| "reader_elements stack (c # cs) =
     (if c = CHR ''<'' then
        (if CHR ''>'' \<in> set cs then
           (if take 1 cs = ''/'' then
              (if stack \<noteq> [] \<and> takeWhile (\<lambda>x. x \<noteq> CHR ''>'') (drop 1 cs) = hd stack then
                 (if tl stack = [] then
                    (if drop 1 (dropWhile (\<lambda>x. x \<noteq> CHR ''>'') cs) = []
                     then Some [End (hd stack)] else None)
                  else
                    map_option ((#) (End (hd stack)))
                      (reader_elements (tl stack) (drop 1 (dropWhile (\<lambda>x. x \<noteq> CHR ''>'') cs))))
               else None)
            else if xml_name (takeWhile (\<lambda>x. x \<noteq> CHR ''>'') cs) then
              map_option ((#) (Start (takeWhile (\<lambda>x. x \<noteq> CHR ''>'') cs)))
                (reader_elements (takeWhile (\<lambda>x. x \<noteq> CHR ''>'') cs # stack)
                   (drop 1 (dropWhile (\<lambda>x. x \<noteq> CHR ''>'') cs)))
            else None)
         else None)
      else
        (if stack \<noteq> [] \<and> char_data (c # takeWhile (\<lambda>x. x \<noteq> CHR ''<'') cs) then
           map_option ((#) (Text (c # takeWhile (\<lambda>x. x \<noteq> CHR ''<'') cs)))
             (reader_elements stack (dropWhile (\<lambda>x. x \<noteq> CHR ''<'') cs))
         else None))"
  by pat_completeness auto
termination
  by (relation "measure (\<lambda>p. length (snd p))")
    (auto simp: less_Suc_eq_le intro: length_dropWhile_le le_trans [OF diff_le_self length_dropWhile_le])

definition strip_declaration :: "string \<Rightarrow> string" where
  "strip_declaration s =
     (if take 5 s = ''<?xml'' then drop 1 (dropWhile (\<lambda>x. x \<noteq> CHR ''>'') s) else s)"

definition reader_nodes :: "string \<Rightarrow> xml_node list option" where
  "reader_nodes s =
     (if strip_declaration s = [] then None else reader_elements [] (strip_declaration s))"





section \<open>The serializer read back\<close>






section \<open>Facts about the tables and the loop\<close>

lemma field_map_known:
  "field_map ''anime'' = Some ANIME"
  "field_map ''entry'' = Some ENTRY"
  "field_map ''id'' = Some ANIMEDBID"
  "field_map ''title'' = Some SERIESTITLE"
  "field_map ''series_title'' = Some SERIESTITLE"
  "field_map ''status'' = Some SERIESSTATUS"
  "field_map ''score'' = Some MYSCORE"
  "field_map ''#text'' = Some FIELDTEXT"
  "field_map ''myanimelist'' = Some FIELDNONE"
  "field_map ''series_animedb_id'' = Some ANIMEDBID"
  by (simp_all add: field_map_def initialize_field_map_def)

lemma field_map_unknown:
  "field_map ''xyz_unknown'' = None"
  by (simp add: field_map_def initialize_field_map_def)

lemma member_map_simps:
  "member_map FIELDNONE = None"
  "member_map FIELDTEXT = None"
  "member_map ANIME = None"
  "member_map ENTRY = None"
  "member_map USERID = None"
  "member_map ANIMEDBID = Some set_series_itemdb_id"
  "member_map SERIESTITLE = Some set_series_title"
  "member_map SERIESSTATUS = Some set_series_status"
  "member_map MYSCORE = Some set_score"
  by (simp_all add: member_map_def initialize_member_map_def)

lemma node_Start:
  "n \<noteq> [] \<Longrightarrow> deserialize_node clean st (Start n) = on_element (resolve_name n st)"
  by (simp add: deserialize_node_def Start_def)

lemma node_End:
  "n \<noteq> [] \<Longrightarrow> deserialize_node clean st (End n) = on_end_element (resolve_name n st)"
  by (simp add: deserialize_node_def End_def)

lemma node_Text:
  "deserialize_node clean st (Text v) = on_text ''#text'' (clean v) (resolve_name ''#text'' st)"
  by (simp add: deserialize_node_def Text_def Let_def)

lemma loop_Nil: "deserialize_loop clean st [] = st"
  by (simp add: deserialize_loop_def)

lemma loop_Cons:
  "deserialize_loop clean st (n # ns) = deserialize_loop clean (deserialize_node clean st n) ns"
  by (simp add: deserialize_loop_def)

lemma loop_append:
  "deserialize_loop clean st (ns @ ms) = deserialize_loop clean (deserialize_loop clean st ns) ms"
  by (simp add: deserialize_loop_def)

lemma deserialize_Some:
  "deserialize clean (Some (ns, ret)) = res (deserialize_loop clean dstate_init ns)"
  by (simp add: deserialize_def deserialize_run_def Let_def)

lemma to_int_examples: "to_int ''5'' = 5" "to_int ''7'' = 7"
  by (simp_all add: to_int_def dec_value_def is_digit_def digit_val_def)

section \<open>The scenario of the search result\<close>

text \<open>Claim C2: the nodes of
  \<open><anime><entry><id>5</id><title>Foo</title></entry><entry><id>7</id><title>Bar</title></entry></anime>\<close>
  give exactly two records, the first with catalog id 5 and title Foo, the second with
  catalog id 7 and title Bar, for every text cleaner that leaves the four texts as they are
  and whatever the last read returns.\<close>

theorem deserialize_search_scenario:
  assumes "clean ''5'' = ''5''" and "clean ''Foo'' = ''Foo''"
    and "clean ''7'' = ''7''" and "clean ''Bar'' = ''Bar''"
  shows "deserialize clean (Some (search_stream, ret)) =
    [Anime_default\<lparr>series_itemdb_id := 5, series_title := ''Foo''\<rparr>,
     Anime_default\<lparr>series_itemdb_id := 7, series_title := ''Bar''\<rparr>]"
  using assms
  by (simp add: deserialize_Some deserialize_loop_def search_stream_def Let_def
      node_Start node_End node_Text resolve_name_def field_map_known member_map_simps
      on_element_def on_end_element_def on_text_def dstate_init_def to_int_examples
      set_series_itemdb_id_def set_series_title_def)

theorem deserialize_search_scenario_witness:
  "id ''5'' = ''5'' \<and> id ''Foo'' = ''Foo'' \<and> id ''7'' = ''7'' \<and> id ''Bar'' = ''Bar''
   \<and> map series_itemdb_id (deserialize id (Some (search_stream, 0))) = [5, 7]
   \<and> map series_title (deserialize id (Some (search_stream, 0))) = [''Foo'', ''Bar'']"
  using deserialize_search_scenario [of id 0] by simp

section \<open>The shape flags only rise\<close>

lemma resolve_name_flags [simp]:
  "entry_after_anime (resolve_name n st) = entry_after_anime st"
  "seen_anime (resolve_name n st) = seen_anime st"
  "seen_entry (resolve_name n st) = seen_entry st"
  by (simp_all add: resolve_name_def split: option.splits)

lemma on_end_element_flags [simp]:
  "entry_after_anime (on_end_element st) = entry_after_anime st"
  "seen_anime (on_end_element st) = seen_anime st"
  "seen_entry (on_end_element st) = seen_entry st"
  by (simp_all add: on_end_element_def Let_def)

lemma on_text_flags [simp]:
  "entry_after_anime (on_text n v st) = entry_after_anime st"
  "seen_anime (on_text n v st) = seen_anime st"
  "seen_entry (on_text n v st) = seen_entry st"
  by (simp_all add: on_text_def Let_def split: option.splits)

lemma node_flags_mono:
  "entry_after_anime st \<Longrightarrow> entry_after_anime (deserialize_node clean st n)"
  "seen_anime st \<Longrightarrow> seen_anime (deserialize_node clean st n)"
  "seen_entry st \<Longrightarrow> seen_entry (deserialize_node clean st n)"
  by (simp_all add: deserialize_node_def Let_def on_element_def split: node_type.splits)

lemma loop_flags_mono:
  "entry_after_anime st \<Longrightarrow> entry_after_anime (deserialize_loop clean st ns)"
  "seen_anime st \<Longrightarrow> seen_anime (deserialize_loop clean st ns)"
  "seen_entry st \<Longrightarrow> seen_entry (deserialize_loop clean st ns)"
  unfolding deserialize_loop_def
  by (induction ns arbitrary: st; simp add: node_flags_mono)+

text \<open>Claim C10: in one run of the loop each of the flags \<open>seen_anime\<close>, \<open>seen_entry\<close> and
  \<open>entry_after_anime\<close> that holds after \<open>i\<close> nodes holds after every later number \<open>j\<close> of
  nodes. So the tag whose end element appends a record is \<open>ANIME\<close> at the start, and once it
  is \<open>ENTRY\<close> it stays \<open>ENTRY\<close>: it changes at most once, from \<open>ANIME\<close> to \<open>ENTRY\<close>.\<close>

theorem shape_flags_monotone:
  assumes "i \<le> j"
  shows "(seen_anime (deserialize_loop clean dstate_init (take i ns)) \<longrightarrow>
            seen_anime (deserialize_loop clean dstate_init (take j ns)))
       \<and> (seen_entry (deserialize_loop clean dstate_init (take i ns)) \<longrightarrow>
            seen_entry (deserialize_loop clean dstate_init (take j ns)))
       \<and> (entry_after_anime (deserialize_loop clean dstate_init (take i ns)) \<longrightarrow>
            entry_after_anime (deserialize_loop clean dstate_init (take j ns)))
       \<and> (record_end_tag (deserialize_loop clean dstate_init (take i ns)) = ENTRY \<longrightarrow>
            record_end_tag (deserialize_loop clean dstate_init (take j ns)) = ENTRY)
       \<and> record_end_tag (deserialize_loop clean dstate_init (take 0 ns)) = ANIME"
proof -
  have "take j ns = take i ns @ drop i (take j ns)"
    using assms by (metis append_take_drop_id min.absorb1 take_take)
  then obtain ms where "take j ns = take i ns @ ms" ..
  then show ?thesis
    by (simp add: loop_append loop_flags_mono record_end_tag_def loop_Nil dstate_init_def)
qed

theorem shape_flags_monotone_witness:
  "(2::nat) \<le> 3
   \<and> seen_anime (deserialize_loop id dstate_init (take 2 search_stream))
   \<and> seen_anime (deserialize_loop id dstate_init (take 3 search_stream))
   \<and> seen_entry (deserialize_loop id dstate_init (take 2 search_stream))
   \<and> seen_entry (deserialize_loop id dstate_init (take 3 search_stream))
   \<and> entry_after_anime (deserialize_loop id dstate_init (take 2 search_stream))
   \<and> entry_after_anime (deserialize_loop id dstate_init (take 3 search_stream))
   \<and> record_end_tag (deserialize_loop id dstate_init (take 3 search_stream)) = ENTRY"
proof -
  have two: "seen_anime (deserialize_loop id dstate_init (take 2 search_stream))
     \<and> seen_entry (deserialize_loop id dstate_init (take 2 search_stream))
     \<and> entry_after_anime (deserialize_loop id dstate_init (take 2 search_stream))"
    by (simp add: search_stream_def deserialize_loop_def node_Start resolve_name_def
        field_map_known on_element_def dstate_init_def)
  with shape_flags_monotone [of 2 3 id search_stream] show ?thesis
    by (simp add: record_end_tag_def)
qed

section \<open>Names the resolver does not know\<close>

text \<open>A start element with an unknown name is reported and leaves \<open>field\<close> as it is. When
  that tag has no setter, the text that follows changes neither the record being built nor
  the records appended so far.\<close>

lemma unknown_element_text_skipped:
  assumes "n \<noteq> []" and "field_map n = None" and "member_map (field st) = None"
  shows "anime (deserialize_loop clean st [Start n, Text v]) = anime st
       \<and> res (deserialize_loop clean st [Start n, Text v]) = res st
       \<and> UnexpectedField n \<in> set (cerr (deserialize_loop clean st [Start n, Text v]))"
  using assms
  by (simp add: deserialize_loop_def node_Start node_Text resolve_name_def field_map_known
      on_element_def on_text_def Let_def)

text \<open>Claim C7, evaluated where it fails: the document
  \<open><anime><entry><title><xyz_unknown>foo</xyz_unknown></title></entry></anime>\<close>. The
  unknown start element is reported, and \<open>field\<close> is still \<open>SERIESTITLE\<close> when the text node
  shifts it into \<open>prev_field\<close>, so the text of the unknown element becomes the title of the
  record being built, and of the record returned.\<close>

theorem unknown_element_text_reaches_setter:
  "anime (deserialize_loop id dstate_init [Start ''anime'', Start ''entry'', Start ''title''])
       = Anime_default
   \<and> anime (deserialize_loop id dstate_init
        [Start ''anime'', Start ''entry'', Start ''title'', Start ''xyz_unknown'', Text ''foo''])
       = Anime_default\<lparr>series_title := ''foo''\<rparr>
   \<and> cerr (deserialize_loop id dstate_init
        [Start ''anime'', Start ''entry'', Start ''title'', Start ''xyz_unknown'', Text ''foo''])
       = [UnexpectedField ''xyz_unknown'']
   \<and> deserialize id (Some ([Start ''anime'', Start ''entry'', Start ''title'',
        Start ''xyz_unknown'', Text ''foo'', End ''xyz_unknown'', End ''title'',
        End ''entry'', End ''anime''], 0))
       = [Anime_default\<lparr>series_title := ''foo''\<rparr>]"
  by (simp add: deserialize_Some deserialize_loop_def node_Start node_End node_Text
      resolve_name_def field_map_known field_map_unknown member_map_simps on_element_def
      on_end_element_def on_text_def Let_def dstate_init_def set_series_title_def)

section \<open>Which end elements append a record\<close>

lemma res_resolve_name [simp]: "res (resolve_name n st) = res st"
  by (simp add: resolve_name_def split: option.splits)

lemma res_on_element [simp]: "res (on_element st) = res st"
  by (simp add: on_element_def)

lemma res_on_text [simp]: "res (on_text n v st) = res st"
  by (simp add: on_text_def Let_def split: option.splits)

lemma res_on_end_element_other:
  "field st \<noteq> ENTRY \<Longrightarrow> field st \<noteq> ANIME \<Longrightarrow> res (on_end_element st) = res st"
  by (simp add: on_end_element_def Let_def)

text \<open>No record is appended at the end of the input, and none by a run whose end elements
  all have names the resolver knows, other than the two wrappers.\<close>

lemma node_without_wrapper_end:
  assumes "node_kind n = XML_READER_TYPE_END_ELEMENT \<longrightarrow> node_name n = [] \<or>
             (\<exists>f. field_map (node_name n) = Some f \<and> f \<noteq> ENTRY \<and> f \<noteq> ANIME)"
  shows "res (deserialize_node clean st n) = res st"
proof (cases "node_kind n")
  case XML_READER_TYPE_END_ELEMENT
  with assms show ?thesis
    by (auto simp: deserialize_node_def Let_def resolve_name_def res_on_end_element_other)
qed (simp_all add: deserialize_node_def Let_def)

lemma loop_without_wrapper_end:
  assumes "\<forall>n \<in> set ns. node_kind n = XML_READER_TYPE_END_ELEMENT \<longrightarrow> node_name n = [] \<or>
             (\<exists>f. field_map (node_name n) = Some f \<and> f \<noteq> ENTRY \<and> f \<noteq> ANIME)"
  shows "res (deserialize_loop clean st ns) = res st"
  using assms
proof (induction ns arbitrary: st)
  case Nil
  show ?case by (simp add: loop_Nil)
next
  case (Cons n ns)
  then show ?case by (simp add: loop_Cons node_without_wrapper_end)
qed

text \<open>Claim C3, evaluated where it fails. The nodes of the truncated document
  \<open><anime><xyz_unknown></xyz_unknown><series_title>Foo\<close> hold no end element of a wrapper,
  and the end element of the unknown name, met while \<open>field\<close> is still \<open>ANIME\<close>, appends the
  empty record; the title set afterwards stays in the record being built and is never
  appended. The same happens in the complete document
  \<open><myanimelist><anime/><xyz_unknown></xyz_unknown></myanimelist>\<close>, whose empty element
  \<open><anime/>\<close> the reader delivers as a start node without an end node.\<close>

theorem unknown_end_element_appends_record:
  "deserialize id (Some ([Start ''anime'', Start ''xyz_unknown'', End ''xyz_unknown'',
      Start ''series_title'', Text ''Foo''], 0)) = [Anime_default]
   \<and> anime (deserialize_run id (Some ([Start ''anime'', Start ''xyz_unknown'', End ''xyz_unknown'',
      Start ''series_title'', Text ''Foo''], 0))) = Anime_default\<lparr>series_title := ''Foo''\<rparr>
   \<and> deserialize id (Some ([Start ''myanimelist'', Start ''anime'', Start ''xyz_unknown'',
      End ''xyz_unknown'', End ''myanimelist''], 0)) = [Anime_default]"
  by (simp add: deserialize_def deserialize_run_def deserialize_loop_def node_Start node_End
      node_Text resolve_name_def field_map_known field_map_unknown member_map_simps
      on_element_def on_end_element_def on_text_def Let_def dstate_init_def set_series_title_def)

section \<open>The comparator is the order on the keys\<close>

lemma string_compare_less: "string_compare a b < 0 \<longleftrightarrow> a < b"
  by (induction a b rule: string_compare.induct) (auto simp: less_char_def)

lemma string_compare_eq: "string_compare a b = 0 \<longleftrightarrow> a = b"
  by (induction a b rule: string_compare.induct) (auto simp: less_char_def)

lemma string_compare_greater: "string_compare a b > 0 \<longleftrightarrow> b < a"
  by (induction a b rule: string_compare.induct) (auto simp: less_char_def)

lemma MALItemComparator_iff:
  "MALItemComparator l r \<longleftrightarrow>
     take 7 (series_date_begin r) < take 7 (series_date_begin l)
     \<or> (take 7 (series_date_begin l) = take 7 (series_date_begin r)
        \<and> series_title l < series_title r)"
  by (auto simp: MALItemComparator_def Let_def string_compare_less string_compare_eq
      string_compare_greater)

text \<open>Claim C5: of two entries the one whose start date has the greater first seven
  characters orders first; when these prefixes are equal the one with the smaller title
  orders first. Greater and smaller are those of the lexicographic order on strings of
  bytes.\<close>

theorem comparator_orders_by_season_then_title:
  "(take 7 (series_date_begin r) < take 7 (series_date_begin l)
      \<longrightarrow> MALItemComparator l r \<and> \<not> MALItemComparator r l)
   \<and> (take 7 (series_date_begin l) = take 7 (series_date_begin r) \<and> series_title l < series_title r
      \<longrightarrow> MALItemComparator l r \<and> \<not> MALItemComparator r l)"
  by (auto simp: MALItemComparator_iff)

theorem comparator_orders_by_season_then_title_witness:
  "take 7 ''2019-10-05'' < take 7 ''2020-04-01''
   \<and> MALItemComparator (Anime_default\<lparr>series_date_begin := ''2020-04-01''\<rparr>)
                        (Anime_default\<lparr>series_date_begin := ''2019-10-05''\<rparr>)
   \<and> \<not> MALItemComparator (Anime_default\<lparr>series_date_begin := ''2019-10-05''\<rparr>)
                          (Anime_default\<lparr>series_date_begin := ''2020-04-01''\<rparr>)
   \<and> take 7 ''2020-04-01'' = take 7 ''2020-04-09'' \<and> ''Bar'' < ''Foo''
   \<and> MALItemComparator (Anime_default\<lparr>series_date_begin := ''2020-04-01'', series_title := ''Bar''\<rparr>)
                        (Anime_default\<lparr>series_date_begin := ''2020-04-09'', series_title := ''Foo''\<rparr>)"
proof -
  have a: "take 7 ''2019-10-05'' < take 7 ''2020-04-01''"
    by (simp add: less_char_def)
  have b: "take 7 ''2020-04-01'' = take 7 ''2020-04-09'' \<and> ''Bar'' < ''Foo''"
    by (simp add: less_char_def)
  show ?thesis
    using a b
      comparator_orders_by_season_then_title
        [of "Anime_default\<lparr>series_date_begin := ''2019-10-05''\<rparr>"
            "Anime_default\<lparr>series_date_begin := ''2020-04-01''\<rparr>"]
      comparator_orders_by_season_then_title
        [of "Anime_default\<lparr>series_date_begin := ''2020-04-09'', series_title := ''Foo''\<rparr>"
            "Anime_default\<lparr>series_date_begin := ''2020-04-01'', series_title := ''Bar''\<rparr>"]
    by simp
qed

section \<open>A collection holds no two equivalent entries\<close>

lemma comparator_irrefl: "\<not> MALItemComparator x x"
  by (simp add: MALItemComparator_iff)

lemma comparator_trans:
  "MALItemComparator x y \<Longrightarrow> MALItemComparator y z \<Longrightarrow> MALItemComparator x z"
  by (auto simp: MALItemComparator_iff)

lemma comparator_equivalent_iff:
  "\<not> MALItemComparator x y \<and> \<not> MALItemComparator y x \<longleftrightarrow>
     take 7 (series_date_begin x) = take 7 (series_date_begin y) \<and> series_title x = series_title y"
  by (auto simp: MALItemComparator_iff)

lemma set_set_insert: "set (set_insert x ys) \<subseteq> insert x (set ys)"
  by (induction ys) auto

lemma sorted_set_insert:
  "sorted_wrt MALItemComparator ys \<Longrightarrow> sorted_wrt MALItemComparator (set_insert x ys)"
proof (induction ys)
  case Nil
  show ?case by simp
next
  case (Cons y ys)
  have tail: "\<forall>z \<in> set ys. MALItemComparator y z" and srt: "sorted_wrt MALItemComparator ys"
    using Cons.prems by simp_all
  show ?case
  proof (cases "MALItemComparator x y")
    case True
    then have "\<forall>z \<in> set ys. MALItemComparator x z"
      using tail comparator_trans by blast
    with True Cons.prems show ?thesis by simp
  next
    case False
    show ?thesis
    proof (cases "MALItemComparator y x")
      case True
      have "\<forall>z \<in> set (set_insert x ys). MALItemComparator y z"
        using tail True set_set_insert [of x ys] by auto
      with False True Cons.IH [OF srt] show ?thesis by simp
    next
      case no: False
      with False Cons.prems show ?thesis by simp
    qed
  qed
qed

lemma sorted_apply_set_op:
  "sorted_wrt MALItemComparator s \<Longrightarrow> sorted_wrt MALItemComparator (apply_set_op s op)"
  by (cases op) (simp_all add: sorted_set_insert set_erase_def sorted_wrt_filter)

lemma sorted_foldl_set_ops:
  "sorted_wrt MALItemComparator s \<Longrightarrow> sorted_wrt MALItemComparator (foldl apply_set_op s ops)"
  by (induction ops arbitrary: s) (simp_all add: sorted_apply_set_op)

lemma sorted_collection_after: "sorted_wrt MALItemComparator (collection_after ops)"
  by (simp add: collection_after_def sorted_foldl_set_ops)

lemma key_order_left:
  fixes a b c s t u :: string
  assumes "\<not> (b < a \<or> a = b \<and> s < t)" and "\<not> (a < b \<or> b = a \<and> t < s)"
    and "b < c \<or> c = b \<and> u < t"
  shows "(a < c \<or> c = a \<and> u < s) \<and> \<not> (c < a \<or> a = c \<and> s < u)"
  using assms by auto

lemma comparator_equivalent_left:
  assumes "\<not> MALItemComparator x y" and "\<not> MALItemComparator y x" and "MALItemComparator z y"
  shows "MALItemComparator z x \<and> \<not> MALItemComparator x z"
  using assms unfolding MALItemComparator_iff by (rule key_order_left)

text \<open>Inserting an entry equivalent to one the set holds leaves the set as it is.\<close>

lemma set_insert_equivalent:
  assumes "sorted_wrt MALItemComparator ys" and "y \<in> set ys"
    and "\<not> MALItemComparator x y" and "\<not> MALItemComparator y x"
  shows "set_insert x ys = ys"
  using assms(1,2)
proof (induction ys)
  case Nil
  then show ?case by simp
next
  case (Cons z zs)
  show ?case
  proof (cases "y = z")
    case True
    have "\<not> MALItemComparator x z" and "\<not> MALItemComparator z x"
      using True assms(3,4) by simp_all
    then show ?thesis by simp
  next
    case False
    then have yin: "y \<in> set zs" using Cons.prems(2) by simp
    have srt: "sorted_wrt MALItemComparator zs" using Cons.prems(1) by simp
    have zy: "MALItemComparator z y" using Cons.prems(1) yin by simp
    have zx: "MALItemComparator z x \<and> \<not> MALItemComparator x z"
      by (rule comparator_equivalent_left [OF assms(3) assms(4) zy])
    have "set_insert x zs = zs"
      by (rule Cons.IH [OF srt yin])
    with zx show ?thesis by simp
  qed
qed

text \<open>Claim C6: in a collection reached from the empty one by any sequence of \<open>insert\<close>,
  \<open>erase\<close> and \<open>clear\<close>, two entries that compare as equal (neither orders before the other:
  by \<open>comparator_equivalent_iff\<close>, the same first seven characters of the start date and the
  same title) are one and the same entry, hence of the same catalog id.\<close>

theorem collection_entries_not_equivalent:
  assumes "i < length (collection_after ops)" and "j < length (collection_after ops)"
    and "\<not> MALItemComparator (collection_after ops ! i) (collection_after ops ! j)"
    and "\<not> MALItemComparator (collection_after ops ! j) (collection_after ops ! i)"
  shows "i = j \<and> series_itemdb_id (collection_after ops ! i) = series_itemdb_id (collection_after ops ! j)"
proof -
  have srt: "sorted_wrt MALItemComparator (collection_after ops)"
    by (rule sorted_collection_after)
  have "\<not> i < j"
    using srt assms(2,3) sorted_wrt_nth_less by blast
  moreover have "\<not> j < i"
    using srt assms(1,4) sorted_wrt_nth_less by blast
  ultimately have "i = j" by simp
  then show ?thesis by simp
qed

theorem collection_entries_not_equivalent_witness:
  "collection_after [Insert (example_entry 1 ''Foo'' ''2020-04-01''),
                     Insert (example_entry 2 ''Foo'' ''2020-04-09'')]
     = [example_entry 1 ''Foo'' ''2020-04-01'']
   \<and> (0::nat) < length (collection_after [Insert (example_entry 1 ''Foo'' ''2020-04-01''),
                                          Insert (example_entry 2 ''Foo'' ''2020-04-09'')])
   \<and> \<not> MALItemComparator
        (collection_after [Insert (example_entry 1 ''Foo'' ''2020-04-01''),
                           Insert (example_entry 2 ''Foo'' ''2020-04-09'')] ! 0)
        (collection_after [Insert (example_entry 1 ''Foo'' ''2020-04-01''),
                           Insert (example_entry 2 ''Foo'' ''2020-04-09'')] ! 0)
   \<and> series_itemdb_id
        (collection_after [Insert (example_entry 1 ''Foo'' ''2020-04-01''),
                           Insert (example_entry 2 ''Foo'' ''2020-04-09'')] ! 0)
     = series_itemdb_id
        (collection_after [Insert (example_entry 1 ''Foo'' ''2020-04-01''),
                           Insert (example_entry 2 ''Foo'' ''2020-04-09'')] ! 0)"
proof -
  let ?a = "example_entry 1 ''Foo'' ''2020-04-01''"
  let ?b = "example_entry 2 ''Foo'' ''2020-04-09''"
  have "\<not> MALItemComparator ?b ?a" and "\<not> MALItemComparator ?a ?b"
    by (simp_all add: MALItemComparator_iff example_entry_def)
  then have c: "collection_after [Insert ?a, Insert ?b] = [?a]"
    by (simp add: collection_after_def)
  have len: "(0::nat) < length (collection_after [Insert ?a, Insert ?b])"
    unfolding c by simp
  have irr: "\<not> MALItemComparator (collection_after [Insert ?a, Insert ?b] ! 0)
               (collection_after [Insert ?a, Insert ?b] ! 0)"
    by (rule comparator_irrefl)
  note same = collection_entries_not_equivalent [OF len len irr irr, THEN conjunct2]
  show ?thesis
    by (intro conjI c len irr same)
qed

section \<open>The two shapes give the same records\<close>


lemma member_map_swap: "member_map (swap_field f) = member_map f"
  by (simp add: swap_field_def member_map_simps)

lemma swap_field_wrapper:
  "swap_field f = ANIME \<longleftrightarrow> f = ENTRY"
  "swap_field f = ENTRY \<longleftrightarrow> f = ANIME"
  by (auto simp: swap_field_def)

lemma swap_field_other:
  "x \<noteq> Some ANIME \<Longrightarrow> x \<noteq> Some ENTRY \<Longrightarrow> map_option swap_field x = x"
  by (cases x) (simp_all add: swap_field_def)

lemma shape_related_resolve:
  assumes "shape_related a b" and "field_map m = map_option swap_field (field_map n)"
  shows "shape_related (resolve_name n a) (resolve_name m b)"
  using assms by (cases "field_map n") (simp_all add: shape_related_def resolve_name_def)

lemma shape_related_element:
  "shape_related a b \<Longrightarrow> shape_related (on_element a) (on_element b)"
  by (simp add: shape_related_def on_element_def)

lemma shape_related_end_element:
  "shape_related a b \<Longrightarrow> shape_related (on_end_element a) (on_end_element b)"
  by (simp add: shape_related_def on_end_element_def Let_def swap_field_wrapper)
    (simp add: swap_field_def)

lemma shape_related_text:
  "shape_related a b \<Longrightarrow> shape_related (on_text n v a) (on_text m v b)"
  by (cases "member_map (prev_field a)")
    (simp_all add: shape_related_def on_text_def Let_def member_map_swap)

lemma shape_related_cerr:
  "shape_related a b \<Longrightarrow> shape_related (a\<lparr>cerr := x\<rparr>) (b\<lparr>cerr := y\<rparr>)"
  by (simp add: shape_related_def)

lemma shape_related_node:
  assumes "shape_related a b" and "node_related n m"
  shows "shape_related (deserialize_node clean a n) (deserialize_node clean b m)"
proof (cases "node_name n = []")
  case True
  with assms show ?thesis
    by (simp add: deserialize_node_def node_related_def)
next
  case False
  from assms(2) have m: "node_name m \<noteq> []" and k: "node_kind m = node_kind n"
    and v: "node_value m = node_value n"
    and f: "field_map (node_name m) = map_option swap_field (field_map (node_name n))"
    using False by (simp_all add: node_related_def)
  note r = shape_related_resolve [OF assms(1) f]
  show ?thesis
  proof (cases "node_kind n")
    case XML_READER_TYPE_ELEMENT
    with False m k r show ?thesis
      by (simp add: deserialize_node_def Let_def shape_related_element)
  next
    case XML_READER_TYPE_END_ELEMENT
    with False m k r show ?thesis
      by (simp add: deserialize_node_def Let_def shape_related_end_element)
  next
    case XML_READER_TYPE_TEXT
    with False m k v r show ?thesis
      by (simp add: deserialize_node_def Let_def shape_related_text)
  next
    case XML_READER_TYPE_SIGNIFICANT_WHITESPACE
    with False m k r show ?thesis
      by (simp add: deserialize_node_def Let_def)
  next
    case (XML_READER_TYPE_OTHER i)
    with False m k r show ?thesis
      by (simp add: deserialize_node_def Let_def shape_related_cerr)
  qed
qed

lemma shape_related_loop:
  assumes "list_all2 node_related ns ms" and "shape_related a b"
  shows "shape_related (deserialize_loop clean a ns) (deserialize_loop clean b ms)"
  using assms
proof (induction arbitrary: a b rule: list_all2_induct)
  case Nil
  then show ?case by (simp add: loop_Nil)
next
  case (Cons n ns m ms)
  from Cons.IH [OF shape_related_node [OF Cons.prems Cons.hyps(1)]]
  show ?case by (simp add: loop_Cons)
qed

text \<open>Two streams that open with \<open><anime><entry>\<close> and with \<open><entry><anime>\<close> and go on
  with corresponding nodes give the same records.\<close>

lemma shape_related_start:
  "shape_related (deserialize_loop clean dstate_init [Start ''anime'', Start ''entry''])
                 (deserialize_loop clean dstate_init [Start ''entry'', Start ''anime''])"
  by (simp add: deserialize_loop_def node_Start resolve_name_def field_map_known on_element_def
      dstate_init_def shape_related_def swap_field_def)

lemma deserialize_swap_wrappers:
  assumes "list_all2 node_related ns ms"
  shows "deserialize clean (Some (Start ''anime'' # Start ''entry'' # ns, ret))
           = deserialize clean (Some (Start ''entry'' # Start ''anime'' # ms, ret'))"
proof -
  have "shape_related
          (deserialize_loop clean (deserialize_loop clean dstate_init [Start ''anime'', Start ''entry'']) ns)
          (deserialize_loop clean (deserialize_loop clean dstate_init [Start ''entry'', Start ''anime'']) ms)"
    by (rule shape_related_loop [OF assms shape_related_start])
  then have "res (deserialize_loop clean dstate_init ([Start ''anime'', Start ''entry''] @ ns))
           = res (deserialize_loop clean dstate_init ([Start ''entry'', Start ''anime''] @ ms))"
    unfolding loop_append by (simp add: shape_related_def)
  then show ?thesis by (simp add: deserialize_Some)
qed

lemma related_wrappers:
  "node_related (Start ''entry'') (Start ''anime'')"
  "node_related (End ''entry'') (End ''anime'')"
  "node_related (End ''anime'') (End ''entry'')"
  by (simp_all add: node_related_def Start_def End_def field_map_known swap_field_def)

lemma related_field_nodes:
  assumes "same_field f g"
  shows "list_all2 node_related (field_nodes f) (field_nodes g)"
proof -
  have e: "field_map (fst f) = field_map (fst g)"
    using assms unfolding same_field_def by blast
  have w: "field_map (fst f) \<noteq> Some ANIME" "field_map (fst f) \<noteq> Some ENTRY"
    using assms unfolding same_field_def by blast+
  have "map_option swap_field (field_map (fst f)) = field_map (fst g)"
    unfolding swap_field_other [OF w] by (rule e)
  with assms show ?thesis
    by (simp add: same_field_def field_nodes_def node_related_def Start_def End_def Text_def
        field_map_known swap_field_def)
qed

lemma related_fields:
  "list_all2 same_field it it' \<Longrightarrow>
     list_all2 node_related (concat (map field_nodes it)) (concat (map field_nodes it'))"
  by (induction rule: list_all2_induct) (simp_all add: related_field_nodes list_all2_appendI)

lemma related_item_nodes:
  "list_all2 same_field it it' \<Longrightarrow>
     list_all2 node_related (item_nodes ''entry'' it) (item_nodes ''anime'' it')"
  by (simp add: item_nodes_def related_wrappers related_fields list_all2_appendI)

lemma related_items:
  "list_all2 (list_all2 same_field) its its' \<Longrightarrow>
     list_all2 node_related (concat (map (item_nodes ''entry'') its))
       (concat (map (item_nodes ''anime'') its'))"
  by (induction rule: list_all2_induct) (simp_all add: related_item_nodes list_all2_appendI)

text \<open>Claim C1, amended: for every two non-empty sequences of items that encode the same
  items (equal texts, names resolving to the same tag, no field named after a wrapper), the
  stream of shape A (\<open><anime><entry>...</entry>...</anime>\<close>) of the one and the stream of
  shape B (\<open><entry><anime>...</anime>...</entry>\<close>) of the other give the same records,
  under the same text cleaner and whatever the last read returns.\<close>

theorem shapes_give_same_records:
  assumes "items \<noteq> []" and "same_items items items'"
  shows "deserialize clean (Some (shape_A items, ret)) = deserialize clean (Some (shape_B items', ret'))"
proof -
  from assms obtain it its it' its' where items: "items = it # its" "items' = it' # its'"
    and f: "list_all2 same_field it it'" and r: "list_all2 (list_all2 same_field) its its'"
    by (cases items; cases items') (auto simp: same_items_def)
  define restA where
    "restA = concat (map field_nodes it) @ [End ''entry''] @ concat (map (item_nodes ''entry'') its) @ [End ''anime'']"
  define restB where
    "restB = concat (map field_nodes it') @ [End ''anime''] @ concat (map (item_nodes ''anime'') its') @ [End ''entry'']"
  have a: "shape_A items = Start ''anime'' # Start ''entry'' # restA"
    by (simp add: shape_A_def items item_nodes_def restA_def)
  have b: "shape_B items' = Start ''entry'' # Start ''anime'' # restB"
    by (simp add: shape_B_def items item_nodes_def restB_def)
  have "list_all2 node_related restA restB"
    unfolding restA_def restB_def
    by (intro list_all2_appendI related_fields [OF f] related_items [OF r])
      (simp_all add: related_wrappers)
  then show ?thesis
    unfolding a b by (rule deserialize_swap_wrappers)
qed

theorem shapes_give_same_records_witness:
  "[[(''id'', ''5''), (''title'', ''Foo'')], [(''xyz_unknown'', [])]] \<noteq> []
   \<and> same_items [[(''id'', ''5''), (''title'', ''Foo'')], [(''xyz_unknown'', [])]]
                 [[(''series_animedb_id'', ''5''), (''series_title'', ''Foo'')], [(''xyz_unknown'', [])]]
   \<and> deserialize id (Some (shape_A [[(''id'', ''5''), (''title'', ''Foo'')], [(''xyz_unknown'', [])]], 0))
     = deserialize id (Some (shape_B
         [[(''series_animedb_id'', ''5''), (''series_title'', ''Foo'')], [(''xyz_unknown'', [])]], 0))"
proof -
  have v: "same_items [[(''id'', ''5''), (''title'', ''Foo'')], [(''xyz_unknown'', [])]]
                      [[(''series_animedb_id'', ''5''), (''series_title'', ''Foo'')], [(''xyz_unknown'', [])]]"
    by (simp add: same_items_def same_field_def field_map_known field_map_unknown)
  have ne: "[[(''id'', ''5''), (''title'', ''Foo'')], [(''xyz_unknown'', [])]] \<noteq> []"
    by simp
  show ?thesis
    by (intro conjI ne v shapes_give_same_records [OF ne v])
qed

text \<open>Claim C1 as stated fails for the empty set of items: \<open><anime></anime>\<close> gives one empty
  record, because without an \<open>entry\<close> inside it \<open>anime\<close> is taken for the wrapper of an
  item, and \<open><entry></entry>\<close> gives none.\<close>

theorem shapes_differ_on_no_items:
  "same_items [] []
   \<and> deserialize id (Some (shape_A [], 0)) = [Anime_default]
   \<and> deserialize id (Some (shape_B [], 0)) = []
   \<and> deserialize id (Some (shape_A [], 0)) \<noteq> deserialize id (Some (shape_B [], 0))"
  by (simp add: same_items_def deserialize_Some deserialize_loop_def shape_A_def shape_B_def
      node_Start node_End resolve_name_def field_map_known on_element_def on_end_element_def
      Let_def dstate_init_def)

section \<open>Decimal digits\<close>
















section \<open>The date elements of the serializer\<close>














section \<open>One item of a search result\<close>






section \<open>The reader on the text of the serializer\<close>




























text \<open>A tag with a bare \<open>&\<close> takes the text of the serializer out of the markup of the
  model.\<close>

lemma reader_outside_markup:
  "reader_nodes (serialize parse_iso (Anime_default\<lparr>tags := [''R&B'']\<rparr>)) = None"
  by code_simp











end
